theory Spec2Isabelle
  imports Main "HOL-Library.Word"
begin

section \<open>The election protocol of \<open>WindowManager.cpp\<close>\<close>

text \<open>
  The source is one C++ class, \<open>WindowManager\<close>, whose methods talk to three
  collaborators: a \<open>Monarch\<close> object reached through a COM reference (in this process
  or another one), a local \<open>Peasant\<close> object, and the Win32 API. The embedding keeps the
  members of the class in a record, the collaborators in a record of their answers
  (\<open>world\<close>), and every call that leaves the class in a list of calls in program order
  (\<open>calls\<close>). A routine is a function from the object and the world to an outcome, the
  object and the world afterwards.

  What the embedding leaves out: a call through a reference to a live object is taken
  to return (the source has no handler for a failed cross-process call); telemetry keeps
  the name of the event, and the calls made to compute its fields, but not the values of
  the fields; the watcher thread and the thread that owns the object are run one at a
  time, never interleaved.
\<close>

subsection \<open>Data\<close>

type_synonym DWORD = "32 word"
type_synonym HRESULT = "32 word"
type_synonym UInt64 = "64 word"

text \<open>A \<open>HANDLE\<close>; 0 is the null handle.\<close>

type_synonym HANDLE = nat

text \<open>A reference to a Monarch object, as \<open>create_instance\<close> hands it out.\<close>

type_synonym monarch_ref = nat

text \<open>
  Modelled from the spec: \<open>CommandlineArgs.h\<close> is not among the sources. Section 3
  describes the value as the argument vector, the current working directory and an
  optional target window; the class never looks inside it.
\<close>

record CommandlineArgs =
  argv :: "string list"
  cwd :: string
  target :: "string option"

text \<open>
  Modelled from the spec: the \<open>Peasant\<close> class is not among the sources. Section 4.2:
  \<open>executeCommandline\<close> records its argument as the last activated arguments, which
  \<open>getLastActivatedArgs\<close> returns. The identifier of a peasant is read for telemetry
  only and has no field here.
\<close>

record Peasant =
  lastActivatedArgs :: "CommandlineArgs option"

text \<open>
  \<open>std::thread\<close>: an object with no thread (default constructed, or joined), or one
  associated with a thread whose function is still running or has returned. In C++ the
  object is \<open>joinable()\<close> in both of the latter states.
\<close>

datatype std_thread = NoThread | Running | Finished

definition joinable :: "std_thread \<Rightarrow> bool" where
  "joinable t = (t \<noteq> NoThread)"

text \<open>
  The members of the class. The references \<open>_monarch\<close> and \<open>_peasant\<close> can be null
  (\<open>None\<close>); the source tests \<open>_peasant\<close> for it.
\<close>

record WindowManager =
  shouldCreateWindow :: bool
  registrationHostClass :: DWORD
  monarch :: "monarch_ref option"
  peasant :: "Peasant option"
  monarchWaitInterrupt :: HANDLE
  electionThread :: std_thread

text \<open>Every call the class makes outside itself, with the arguments it passes.\<close>

datatype call =
    Event_create
  | CoRegisterClassObject
  | CoRevokeClassObject DWORD
  | Create_instance monarch_ref
  | GetPID monarch_ref
  | Monarch_ProposeCommandline monarch_ref CommandlineArgs
  | AddPeasant monarch_ref "Peasant option"
  | HandleActivatePeasant monarch_ref "CommandlineArgs option"
  | FindTargetWindowRequested monarch_ref
  | Make_Peasant
  | GetID
  | GetLastActivatedArgs
  | ExecuteCommandline CommandlineArgs
  | TraceLoggingWrite string
  | SetEvent HANDLE
  | Thread_start
  | Thread_join
  | OpenProcess DWORD
  | CloseHandle HANDLE
  | WaitForMultipleObjects "HANDLE list"
  | GetLastError
  | Printf string "DWORD list"

text \<open>
  The answers of the collaborators. The Monarch class is not among the
  sources, so what \<open>GetPID\<close> and \<open>ProposeCommandline\<close> return is a parameter: one
  answer per Monarch object. \<open>activation\<close> is the Monarch that COM activation yields at
  present, \<open>registration\<close> the result and the cookie of \<open>CoRegisterClassObject\<close>,
  \<open>createdEvent\<close> the handle of the event \<open>create()\<close> makes, \<open>processHandle\<close> the
  answer of \<open>OpenProcess\<close> for each process id (0 when it fails).
\<close>

record world =
  currentProcessId :: DWORD
  monarchPID :: "monarch_ref \<Rightarrow> UInt64"
  monarchProposes :: "monarch_ref \<Rightarrow> CommandlineArgs \<Rightarrow> bool"
  activation :: monarch_ref
  registration :: "HRESULT \<times> DWORD"
  createdEvent :: HANDLE
  processHandle :: "DWORD \<Rightarrow> HANDLE"
  lastError :: DWORD
  calls :: "call list"

subsection \<open>Outcomes and sequencing\<close>

text \<open>
  A routine returns, or it does not: \<open>check_hresult\<close> throws, a call through a null
  reference is an access violation, \<open>std::terminate\<close> and \<open>ExitProcess\<close> end the
  process, and a wait with no timeout may not have returned yet.
\<close>

datatype stop =
    Thrown HRESULT
  | AccessViolation
  | Terminate
  | Exited DWORD
  | StillWaiting

datatype 'a outcome = Returned 'a | Stopped stop

type_synonym 'a routine = "WindowManager \<Rightarrow> world \<Rightarrow> 'a outcome \<times> WindowManager \<times> world"

definition ret :: "'a \<Rightarrow> 'a routine" where
  "ret x = (\<lambda>this w. (Returned x, this, w))"

definition stop :: "stop \<Rightarrow> 'a routine" where
  "stop r = (\<lambda>this w. (Stopped r, this, w))"

text \<open>\<open>seq m f\<close>: run \<open>m\<close>; when it returns \<open>x\<close>, go on with \<open>f x\<close>; otherwise stop there.\<close>

definition seq :: "'a routine \<Rightarrow> ('a \<Rightarrow> 'b routine) \<Rightarrow> 'b routine" where
  "seq m f = (\<lambda>this w. case m this w of
       (Returned x, this', w') \<Rightarrow> f x this' w'
     | (Stopped r, this', w') \<Rightarrow> (Stopped r, this', w'))"

definition emit :: "call \<Rightarrow> unit routine" where
  "emit c = (\<lambda>this w. (Returned (), this, w\<lparr>calls := calls w @ [c]\<rparr>))"

definition field :: "(WindowManager \<Rightarrow> 'a) \<Rightarrow> 'a routine" where
  "field f = (\<lambda>this w. (Returned (f this), this, w))"

definition assign :: "(WindowManager \<Rightarrow> WindowManager) \<Rightarrow> unit routine" where
  "assign f = (\<lambda>this w. (Returned (), f this, w))"

definition answer :: "(world \<Rightarrow> 'a) \<Rightarrow> 'a routine" where
  "answer f = (\<lambda>this w. (Returned (f w), this, w))"

text \<open>A call through \<open>_monarch\<close>, and one through \<open>_peasant\<close>.\<close>

definition via_monarch :: "(monarch_ref \<Rightarrow> 'a routine) \<Rightarrow> 'a routine" where
  "via_monarch f = (\<lambda>this w. case monarch this of
       None \<Rightarrow> (Stopped AccessViolation, this, w)
     | Some m \<Rightarrow> f m this w)"

definition via_peasant :: "(Peasant \<Rightarrow> 'a routine) \<Rightarrow> 'a routine" where
  "via_peasant f = (\<lambda>this w. case peasant this of
       None \<Rightarrow> (Stopped AccessViolation, this, w)
     | Some p \<Rightarrow> f p this w)"

subsection \<open>The collaborators' methods, as the class calls them\<close>

definition Monarch_GetPID :: "UInt64 routine" where
  "Monarch_GetPID = via_monarch (\<lambda>m.
     seq (emit (GetPID m)) (\<lambda>_.
     answer (\<lambda>w. monarchPID w m)))"

definition Monarch_Propose :: "CommandlineArgs \<Rightarrow> bool routine" where
  "Monarch_Propose args = via_monarch (\<lambda>m.
     seq (emit (Monarch_ProposeCommandline m args)) (\<lambda>_.
     answer (\<lambda>w. monarchProposes w m args)))"

definition Monarch_AddPeasant :: "Peasant option \<Rightarrow> unit routine" where
  "Monarch_AddPeasant p = via_monarch (\<lambda>m. emit (AddPeasant m p))"

definition Monarch_HandleActivatePeasant :: "CommandlineArgs option \<Rightarrow> unit routine" where
  "Monarch_HandleActivatePeasant a = via_monarch (\<lambda>m. emit (HandleActivatePeasant m a))"

definition Monarch_FindTargetWindowRequested :: "unit routine" where
  "Monarch_FindTargetWindowRequested = via_monarch (\<lambda>m. emit (FindTargetWindowRequested m))"

definition Peasant_GetID :: "unit routine" where
  "Peasant_GetID = via_peasant (\<lambda>_. emit GetID)"

definition Peasant_GetLastActivatedArgs :: "CommandlineArgs option routine" where
  "Peasant_GetLastActivatedArgs = via_peasant (\<lambda>p.
     seq (emit GetLastActivatedArgs) (\<lambda>_.
     ret (lastActivatedArgs p)))"

definition Peasant_ExecuteCommandline :: "CommandlineArgs \<Rightarrow> unit routine" where
  "Peasant_ExecuteCommandline args = via_peasant (\<lambda>p.
     seq (emit (ExecuteCommandline args)) (\<lambda>_.
     assign (\<lambda>this. this\<lparr>peasant := Some (p\<lparr>lastActivatedArgs := Some args\<rparr>)\<rparr>)))"

definition GetCurrentProcessId :: "DWORD routine" where
  "GetCurrentProcessId = answer currentProcessId"

subsection \<open>The methods of \<open>WindowManager\<close>\<close>

text \<open>
  \<^verbatim>\<open>
  bool WindowManager::_areWeTheKing()
  {
      const auto kingPID{ _monarch.GetPID() };
      const auto ourPID{ GetCurrentProcessId() };
      return (ourPID == kingPID);
  }
  \<close>
  \<open>GetPID\<close> returns 64 bits (the source logs it with \<open>TraceLoggingUInt64\<close> and casts
  it to \<open>DWORD\<close> for \<open>OpenProcess\<close>); the comparison widens the 32-bit \<open>ourPID\<close>.
\<close>

definition areWeTheKing :: "bool routine" where
  "areWeTheKing =
     seq Monarch_GetPID (\<lambda>kingPID.
     seq GetCurrentProcessId (\<lambda>ourPID.
     ret (ucast ourPID = kingPID)))"

text \<open>
  \<^verbatim>\<open>
  Remoting::IPeasant WindowManager::_createOurPeasant()
  {
      auto p = winrt::make_self<Remoting::implementation::Peasant>();
      _peasant = *p;
      _monarch.AddPeasant(_peasant);
      TraceLoggingWrite(g_hRemotingProvider, "WindowManager_CreateOurPeasant",
                        TraceLoggingUInt64(_peasant.GetID(), "peasantID", ...), ...);
      return _peasant;
  }
  \<close>
\<close>

definition createOurPeasant :: "Peasant option routine" where
  "createOurPeasant =
     seq (emit Make_Peasant) (\<lambda>_.
     seq (assign (\<lambda>this. this\<lparr>peasant := Some \<lparr>lastActivatedArgs = None\<rparr>\<rparr>)) (\<lambda>_.
     seq (field peasant) (\<lambda>p.
     seq (Monarch_AddPeasant p) (\<lambda>_.
     seq Peasant_GetID (\<lambda>_.
     seq (emit (TraceLoggingWrite ''WindowManager_CreateOurPeasant'')) (\<lambda>_.
     field peasant))))))"

text \<open>
  \<^verbatim>\<open>
  void WindowManager::_createPeasantThread()
  {
      _electionThread = std::thread([this] {
          _waitOnMonarchThread();
      });
  }
  \<close>
  The new thread is started before it is assigned; assigning to a \<open>std::thread\<close> that
  is still joinable calls \<open>std::terminate\<close>.
\<close>

definition createPeasantThread :: "unit routine" where
  "createPeasantThread =
     seq (emit Thread_start) (\<lambda>_.
     seq (field electionThread) (\<lambda>old.
     if joinable old then stop Terminate
     else assign (\<lambda>this. this\<lparr>electionThread := Running\<rparr>)))"

text \<open>
  \<^verbatim>\<open>
  void WindowManager::ProposeCommandline(const Remoting::CommandlineArgs& args)
  {
      const bool isKing = _areWeTheKing();
      _shouldCreateWindow = isKing ||
                            _monarch.ProposeCommandline(args);
      if (_shouldCreateWindow)
      {
          _createOurPeasant();
          if (!isKing)
          {
              _createPeasantThread();
          }
          _peasant.ExecuteCommandline(args);
      }
      // Otherwise, we'll do _nothing_.
  }

  bool WindowManager::ShouldCreateWindow()
  {
      return _shouldCreateWindow;
  }
  \<close>
\<close>

definition ProposeCommandline :: "CommandlineArgs \<Rightarrow> unit routine" where
  "ProposeCommandline args =
     seq areWeTheKing (\<lambda>isKing.
     seq (if isKing then ret True else Monarch_Propose args) (\<lambda>b.
     seq (assign (\<lambda>this. this\<lparr>shouldCreateWindow := b\<rparr>)) (\<lambda>_.
     seq (field shouldCreateWindow) (\<lambda>create.
     if create then
       seq createOurPeasant (\<lambda>_.
       seq (if \<not> isKing then createPeasantThread else ret ()) (\<lambda>_.
       Peasant_ExecuteCommandline args))
     else ret ()))))"

definition ShouldCreateWindow :: "bool routine" where
  "ShouldCreateWindow = field shouldCreateWindow"

text \<open>
  \<^verbatim>\<open>
  void WindowManager::_registerAsMonarch()
  {
      winrt::check_hresult(CoRegisterClassObject(Monarch_clsid,
                                                 winrt::make<::MonarchFactory>().get(),
                                                 CLSCTX_LOCAL_SERVER,
                                                 REGCLS_MULTIPLEUSE,
                                                 &_registrationHostClass));
  }
  \<close>
  \<open>check_hresult\<close> throws when the result is negative as a signed number.
\<close>

definition check_hresult :: "HRESULT \<Rightarrow> unit routine" where
  "check_hresult hr = (if sint hr < 0 then stop (Thrown hr) else ret ())"

definition registerAsMonarch :: "unit routine" where
  "registerAsMonarch =
     seq (emit CoRegisterClassObject) (\<lambda>_.
     seq (answer registration) (\<lambda>(hr, cookie).
     seq (assign (\<lambda>this. this\<lparr>registrationHostClass := cookie\<rparr>)) (\<lambda>_.
     check_hresult hr)))"

text \<open>
  \<^verbatim>\<open>
  void WindowManager::_createMonarch()
  {
      _monarch = create_instance<Remoting::Monarch>(Monarch_clsid,
                                                    CLSCTX_LOCAL_SERVER);
  }
  \<close>
\<close>

definition createMonarch :: "unit routine" where
  "createMonarch =
     seq (answer activation) (\<lambda>m.
     seq (emit (Create_instance m)) (\<lambda>_.
     assign (\<lambda>this. this\<lparr>monarch := Some m\<rparr>)))"

text \<open>
  \<^verbatim>\<open>
  void WindowManager::_createMonarchAndCallbacks()
  {
      _createMonarch();
      const auto isKing = _areWeTheKing();

      TraceLoggingWrite(g_hRemotingProvider, "WindowManager_ConnectedToMonarch",
                        TraceLoggingUInt64(_monarch.GetPID(), "monarchPID", ...),
                        TraceLoggingBoolean(isKing, "isKing", ...), ...);

      if (_peasant)
      {
          // Inform the monarch of the time we were last activated
          _monarch.HandleActivatePeasant(_peasant.GetLastActivatedArgs());
      }

      if (!isKing)
      {
          return;
      }
      // Here, we're the king!
      _monarch.FindTargetWindowRequested({ this, &WindowManager::_raiseFindTargetWindowRequested });
  }
  \<close>
\<close>

definition createMonarchAndCallbacks :: "unit routine" where
  "createMonarchAndCallbacks =
     seq createMonarch (\<lambda>_.
     seq areWeTheKing (\<lambda>isKing.
     seq Monarch_GetPID (\<lambda>_.
     seq (emit (TraceLoggingWrite ''WindowManager_ConnectedToMonarch'')) (\<lambda>_.
     seq (field peasant) (\<lambda>p.
     seq (if p \<noteq> None then
            seq Peasant_GetLastActivatedArgs (\<lambda>a. Monarch_HandleActivatePeasant a)
          else ret ()) (\<lambda>_.
     if \<not> isKing then ret ()
     else Monarch_FindTargetWindowRequested))))))"

text \<open>
  \<^verbatim>\<open>
  WindowManager::WindowManager()
  {
      _monarchWaitInterrupt.create();

      // Register with COM as a server for the Monarch class
      _registerAsMonarch();
      // Instantiate an instance of the Monarch. This may or may not be in-proc!
      _createMonarchAndCallbacks();
  }
  \<close>
  The constructor's body runs on the object as its member initialisers left it.
\<close>

definition WindowManager_constructor :: "unit routine" where
  "WindowManager_constructor =
     seq (emit Event_create) (\<lambda>_.
     seq (answer createdEvent) (\<lambda>h.
     seq (assign (\<lambda>this. this\<lparr>monarchWaitInterrupt := h\<rparr>)) (\<lambda>_.
     seq registerAsMonarch (\<lambda>_.
     createMonarchAndCallbacks))))"

text \<open>
  \<^verbatim>\<open>
  WindowManager::~WindowManager()
  {
      // IMPORTANT! Tear down the registration as soon as we exit. If we're not a
      // real peasant window (the monarch passed our commandline to someone else),
      // then the monarch dies, we don't want our registration becoming the active
      // monarch!
      CoRevokeClassObject(_registrationHostClass);
      _registrationHostClass = 0;
      _monarchWaitInterrupt.SetEvent();

      if (_electionThread.joinable())
      {
          _electionThread.join();
      }
  }
  \<close>
  After \<open>join()\<close> the thread object has no thread.
\<close>

definition thread_join :: "unit routine" where
  "thread_join =
     seq (emit Thread_join) (\<lambda>_.
     assign (\<lambda>this. this\<lparr>electionThread := NoThread\<rparr>))"

definition WindowManager_destructor :: "unit routine" where
  "WindowManager_destructor =
     seq (field registrationHostClass) (\<lambda>cookie.
     seq (emit (CoRevokeClassObject cookie)) (\<lambda>_.
     seq (assign (\<lambda>this. this\<lparr>registrationHostClass := 0\<rparr>)) (\<lambda>_.
     seq (field monarchWaitInterrupt) (\<lambda>h.
     seq (emit (SetEvent h)) (\<lambda>_.
     seq (field electionThread) (\<lambda>t.
     if joinable t then thread_join
     else ret ()))))))"

text \<open>
  \<^verbatim>\<open>
  bool WindowManager::_electionNight2020()
  {
      _createMonarchAndCallbacks();

      // Tell the new monarch who we are. We might be that monarch!
      _monarch.AddPeasant(_peasant);

      if (_areWeTheKing())
      {
          return true;
      }
      return false;
  }
  \<close>
\<close>

definition electionNight2020 :: "bool routine" where
  "electionNight2020 =
     seq createMonarchAndCallbacks (\<lambda>_.
     seq (field peasant) (\<lambda>p.
     seq (Monarch_AddPeasant p) (\<lambda>_.
     seq areWeTheKing (\<lambda>king.
     if king then ret True
     else ret False))))"

subsection \<open>The watcher thread\<close>

text \<open>
  The watcher blocks in \<open>WaitForMultipleObjects(2, waits, FALSE, INFINITE)\<close>. What the
  wait returns, and which Monarch activation yields by then, is the environment's
  choice: a \<open>completion\<close>. A wait that has no completion has not returned. Win32 checks
  the handles first: with a null handle among them the call fails at once with
  \<open>WAIT_FAILED\<close> and the last error \<open>ERROR_INVALID_HANDLE\<close>. The last argument is the
  time-out interval: with \<open>INFINITE\<close> the interval never elapses, so a completion that
  reports \<open>WAIT_TIMEOUT\<close> does not end such a wait.
\<close>

record completion =
  waitResult :: DWORD
  activationAfter :: monarch_ref

definition WAIT_OBJECT_0 :: DWORD where
  "WAIT_OBJECT_0 = 0"

definition WAIT_TIMEOUT :: DWORD where
  "WAIT_TIMEOUT = 258"

definition WAIT_FAILED :: DWORD where
  "WAIT_FAILED = 0xFFFFFFFF"

definition ERROR_INVALID_HANDLE :: DWORD where
  "ERROR_INVALID_HANDLE = 6"

definition INFINITE :: DWORD where
  "INFINITE = 0xFFFFFFFF"

definition wait_for_multiple_objects ::
  "HANDLE list \<Rightarrow> DWORD \<Rightarrow> completion option \<Rightarrow> DWORD routine" where
  "wait_for_multiple_objects waits dwMilliseconds c =
     seq (emit (WaitForMultipleObjects waits)) (\<lambda>_.
     if 0 \<in> set waits then
       (\<lambda>this w. (Returned WAIT_FAILED, this, w\<lparr>lastError := ERROR_INVALID_HANDLE\<rparr>))
     else (case c of
         None \<Rightarrow> stop StillWaiting
       | Some c \<Rightarrow>
           if waitResult c = WAIT_TIMEOUT \<and> dwMilliseconds = INFINITE then stop StillWaiting
           else (\<lambda>this w. (Returned (waitResult c), this,
                  w\<lparr>activation := activationAfter c\<rparr>))))"

definition open_process :: "DWORD \<Rightarrow> HANDLE routine" where
  "open_process pid =
     seq (emit (OpenProcess pid)) (\<lambda>_.
     answer (\<lambda>w. processHandle w pid))"

text \<open>The destructor of \<open>wil::unique_handle\<close> closes a handle that is not null.\<close>

definition unique_handle_reset :: "HANDLE \<Rightarrow> unit routine" where
  "unique_handle_reset h = (if h \<noteq> 0 then emit (CloseHandle h) else ret ())"

definition get_last_error :: "DWORD routine" where
  "get_last_error =
     seq (emit GetLastError) (\<lambda>_.
     answer lastError)"

text \<open>
  \<^verbatim>\<open>
  void WindowManager::_waitOnMonarchThread()
  {
      HANDLE waits[2];
      waits[1] = _monarchWaitInterrupt.get();

      bool exitRequested = false;
      while (!exitRequested)
      {
          wil::unique_handle hMonarch{ OpenProcess(PROCESS_ALL_ACCESS,
                                                   FALSE,
                                                   static_cast<DWORD>(_monarch.GetPID())) };
          // TODO:MG If we fail to open the monarch, then they don't exist
          //  anymore! Go straight to an election.
          // ...
          // if (hMonarch.get() == nullptr)
          // {
          //     const auto gle = GetLastError();
          //     return false;
          // }
          waits[0] = hMonarch.get();
          auto waitResult = WaitForMultipleObjects(2, waits, FALSE, INFINITE);

          switch (waitResult)
          {
          case WAIT_OBJECT_0 + 0: // waits[0] was signaled
              TraceLoggingWrite(g_hRemotingProvider, "WindowManager_MonarchDied",
                                TraceLoggingUInt64(_peasant.GetID(), "peasantID", ...), ...);
              // Connect to the new monarch, which might be us!
              // If we become the monarch, then we'll return true and exit this thread.
              exitRequested = _electionNight2020();
              break;
          case WAIT_OBJECT_0 + 1: // waits[1] was signaled
              TraceLoggingWrite(g_hRemotingProvider, "WindowManager_MonarchWaitInterrupted",
                                TraceLoggingUInt64(_peasant.GetID(), "peasantID", ...), ...);
              exitRequested = true;
              break;
          case WAIT_TIMEOUT:
              printf("Wait timed out. This should be impossible.\n");
              exitRequested = true;
              break;
          // Return value is invalid.
          default:
          {
              auto gle = GetLastError();
              printf("WaitForMultipleObjects returned: %d\n", waitResult);
              printf("Wait error: %d\n", gle);
              ExitProcess(0);
          }
          }
      }
  }
  \<close>
  \<open>loop_body waits1 c\<close> is one pass through the body of the loop, the wait completing
  with \<open>c\<close>; it returns \<open>exitRequested\<close>. The format strings of \<open>printf\<close> are
  kept without their line ends.
\<close>

definition loop_body :: "HANDLE \<Rightarrow> completion option \<Rightarrow> bool routine" where
  "loop_body waits1 c =
     seq Monarch_GetPID (\<lambda>pid.
     seq (open_process (ucast pid)) (\<lambda>hMonarch.
     seq (wait_for_multiple_objects [hMonarch, waits1] INFINITE c) (\<lambda>r.
     if r = WAIT_OBJECT_0 + 0 then
       seq Peasant_GetID (\<lambda>_.
       seq (emit (TraceLoggingWrite ''WindowManager_MonarchDied'')) (\<lambda>_.
       seq electionNight2020 (\<lambda>exitRequested.
       seq (unique_handle_reset hMonarch) (\<lambda>_.
       ret exitRequested))))
     else if r = WAIT_OBJECT_0 + 1 then
       seq Peasant_GetID (\<lambda>_.
       seq (emit (TraceLoggingWrite ''WindowManager_MonarchWaitInterrupted'')) (\<lambda>_.
       seq (unique_handle_reset hMonarch) (\<lambda>_.
       ret True)))
     else if r = WAIT_TIMEOUT then
       seq (emit (Printf ''Wait timed out. This should be impossible.'' [])) (\<lambda>_.
       seq (unique_handle_reset hMonarch) (\<lambda>_.
       ret True))
     else
       seq get_last_error (\<lambda>gle.
       seq (emit (Printf ''WaitForMultipleObjects returned: %d'' [r])) (\<lambda>_.
       seq (emit (Printf ''Wait error: %d'' [gle])) (\<lambda>_.
       stop (Exited 0)))))))"

text \<open>
  The loop, over the completions of its waits in order. With none left the next wait has
  not returned.
\<close>

fun loop :: "HANDLE \<Rightarrow> completion list \<Rightarrow> unit routine" where
  "loop waits1 [] this w =
     (case loop_body waits1 None this w of
        (Returned _, this', w') \<Rightarrow> (Stopped StillWaiting, this', w')
      | (Stopped r, this', w') \<Rightarrow> (Stopped r, this', w'))"
| "loop waits1 (c # cs) this w =
     (case loop_body waits1 (Some c) this w of
        (Returned exitRequested, this', w') \<Rightarrow>
          if exitRequested then (Returned (), this', w')
          else loop waits1 cs this' w'
      | (Stopped r, this', w') \<Rightarrow> (Stopped r, this', w'))"

definition waitOnMonarchThread :: "completion list \<Rightarrow> unit routine" where
  "waitOnMonarchThread cs =
     seq (field monarchWaitInterrupt) (\<lambda>waits1.
     loop waits1 cs)"

text \<open>
  The function of the thread, \<open>[this] { _waitOnMonarchThread(); }\<close>: when it
  returns, the thread has finished (and stays joinable).
\<close>

definition electionThread_function :: "completion list \<Rightarrow> unit routine" where
  "electionThread_function cs =
     seq (waitOnMonarchThread cs) (\<lambda>_.
     assign (\<lambda>this. this\<lparr>electionThread := Finished\<rparr>))"

subsection \<open>Reading a run\<close>

text \<open>
  The three parts of what a routine leaves behind, and the calls it made: those the
  run appended to the list.
\<close>

definition outcome_of :: "'a routine \<Rightarrow> WindowManager \<Rightarrow> world \<Rightarrow> 'a outcome" where
  "outcome_of m this w = fst (m this w)"

definition object_after :: "'a routine \<Rightarrow> WindowManager \<Rightarrow> world \<Rightarrow> WindowManager" where
  "object_after m this w = fst (snd (m this w))"

definition world_after :: "'a routine \<Rightarrow> WindowManager \<Rightarrow> world \<Rightarrow> world" where
  "world_after m this w = snd (snd (m this w))"

definition calls_made :: "'a routine \<Rightarrow> WindowManager \<Rightarrow> world \<Rightarrow> call list" where
  "calls_made m this w = drop (length (calls w)) (calls (world_after m this w))"

text \<open>
  The comparison of process identities: the id of this process, widened to 64 bits,
  against the pid that Monarch \<open>m\<close> reports.
\<close>

definition sameProcess :: "world \<Rightarrow> monarch_ref \<Rightarrow> bool" where
  "sameProcess w m = (ucast (currentProcessId w) = monarchPID w m)"

subsection \<open>A concrete world\<close>

text \<open>
  This process has id 200. Monarch 11 lives in process 100, Monarch 22 in this process,
  any other in process 300; a Monarch proposes a new window unless the arguments name a
  target. \<open>members\<close> is the object before its constructor runs, \<open>constructed a\<close> the
  object after it, when activation yields Monarch \<open>a\<close>.
\<close>

definition args_A :: CommandlineArgs where
  "args_A = \<lparr>argv = [''wt''], cwd = ''/a'', target = None\<rparr>"

definition args_B :: CommandlineArgs where
  "args_B = \<lparr>argv = [''wt'', ''-w'', ''existing-window-1''], cwd = ''/b'',
     target = Some ''existing-window-1''\<rparr>"

definition members :: WindowManager where
  "members = \<lparr>shouldCreateWindow = False, registrationHostClass = 0, monarch = None,
     peasant = None, monarchWaitInterrupt = 0, electionThread = NoThread\<rparr>"

definition example_world :: "monarch_ref \<Rightarrow> world" where
  "example_world a = \<lparr>currentProcessId = 200,
     monarchPID = (\<lambda>m. if m = 11 then 100 else if m = 22 then 200 else 300),
     monarchProposes = (\<lambda>m a. target a = None),
     activation = a, registration = (0, 77), createdEvent = 5,
     processHandle = (\<lambda>pid. if pid = 100 then 9 else if pid = 300 then 11 else 0),
     lastError = 0, calls = []\<rparr>"

definition constructed :: "monarch_ref \<Rightarrow> WindowManager" where
  "constructed a = members\<lparr>monarchWaitInterrupt := 5, registrationHostClass := 77,
     monarch := Some a\<rparr>"

text \<open>
  \<open>watching\<close> is the object of a subject that has proposed \<open>args_A\<close> and started
  its watcher; \<open>completed r a\<close> is a wait that returns \<open>r\<close> when activation yields
  Monarch \<open>a\<close>.
\<close>

definition watching :: WindowManager where
  "watching = (constructed 11)\<lparr>shouldCreateWindow := True,
     peasant := Some \<lparr>lastActivatedArgs = Some args_A\<rparr>, electionThread := Running\<rparr>"

definition completed :: "DWORD \<Rightarrow> monarch_ref \<Rightarrow> completion" where
  "completed r a = \<lparr>waitResult = r, activationAfter = a\<rparr>"


section \<open>Running the methods\<close>

lemmas prims = ret_def stop_def seq_def emit_def field_def assign_def answer_def
  via_monarch_def via_peasant_def

lemmas collab = Monarch_GetPID_def Monarch_Propose_def Monarch_AddPeasant_def
  Monarch_HandleActivatePeasant_def Monarch_FindTargetWindowRequested_def
  Peasant_GetID_def Peasant_GetLastActivatedArgs_def Peasant_ExecuteCommandline_def
  GetCurrentProcessId_def

lemmas observe = outcome_of_def object_after_def world_after_def calls_made_def

lemmas waits = WAIT_OBJECT_0_def WAIT_TIMEOUT_def WAIT_FAILED_def ERROR_INVALID_HANDLE_def
  INFINITE_def

lemmas win32 = wait_for_multiple_objects_def open_process_def unique_handle_reset_def
  get_last_error_def

lemma areWeTheKing_run:
  "monarch this = Some m \<Longrightarrow>
   areWeTheKing this w =
     (Returned (sameProcess w m), this, w\<lparr>calls := calls w @ [GetPID m]\<rparr>)"
  by (simp add: areWeTheKing_def sameProcess_def prims collab)

lemma areWeTheKing_null:
  "monarch this = None \<Longrightarrow> areWeTheKing this w = (Stopped AccessViolation, this, w)"
  by (simp add: areWeTheKing_def prims collab)

lemma createOurPeasant_run:
  "monarch this = Some m \<Longrightarrow>
   createOurPeasant this w =
     (Returned (Some \<lparr>lastActivatedArgs = None\<rparr>),
      this\<lparr>peasant := Some \<lparr>lastActivatedArgs = None\<rparr>\<rparr>,
      w\<lparr>calls := calls w @ [Make_Peasant, AddPeasant m (Some \<lparr>lastActivatedArgs = None\<rparr>), GetID,
         TraceLoggingWrite ''WindowManager_CreateOurPeasant'']\<rparr>)"
  by (simp add: createOurPeasant_def prims collab)

lemma createPeasantThread_run:
  "createPeasantThread this w =
     (if joinable (electionThread this)
      then (Stopped Terminate, this, w\<lparr>calls := calls w @ [Thread_start]\<rparr>)
      else (Returned (), this\<lparr>electionThread := Running\<rparr>,
            w\<lparr>calls := calls w @ [Thread_start]\<rparr>))"
  by (simp add: createPeasantThread_def prims)

lemma ProposeCommandline_king:
  "monarch this = Some m \<Longrightarrow> sameProcess w m \<Longrightarrow>
   ProposeCommandline args this w =
     (Returned (),
      this\<lparr>shouldCreateWindow := True, peasant := Some \<lparr>lastActivatedArgs = Some args\<rparr>\<rparr>,
      w\<lparr>calls := calls w @ [GetPID m, Make_Peasant,
         AddPeasant m (Some \<lparr>lastActivatedArgs = None\<rparr>), GetID,
         TraceLoggingWrite ''WindowManager_CreateOurPeasant'', ExecuteCommandline args]\<rparr>)"
  by (simp add: ProposeCommandline_def areWeTheKing_run createOurPeasant_run prims collab)

lemma ProposeCommandline_subject_create:
  "monarch this = Some m \<Longrightarrow> \<not> sameProcess w m \<Longrightarrow> monarchProposes w m args \<Longrightarrow>
   \<not> joinable (electionThread this) \<Longrightarrow>
   ProposeCommandline args this w =
     (Returned (),
      this\<lparr>shouldCreateWindow := True, peasant := Some \<lparr>lastActivatedArgs = Some args\<rparr>,
        electionThread := Running\<rparr>,
      w\<lparr>calls := calls w @ [GetPID m, Monarch_ProposeCommandline m args, Make_Peasant,
         AddPeasant m (Some \<lparr>lastActivatedArgs = None\<rparr>), GetID,
         TraceLoggingWrite ''WindowManager_CreateOurPeasant'', Thread_start,
         ExecuteCommandline args]\<rparr>)"
  by (simp add: ProposeCommandline_def areWeTheKing_run createOurPeasant_run
      createPeasantThread_run prims collab)

lemma ProposeCommandline_subject_second_thread:
  "monarch this = Some m \<Longrightarrow> \<not> sameProcess w m \<Longrightarrow> monarchProposes w m args \<Longrightarrow>
   joinable (electionThread this) \<Longrightarrow>
   ProposeCommandline args this w =
     (Stopped Terminate,
      this\<lparr>shouldCreateWindow := True, peasant := Some \<lparr>lastActivatedArgs = None\<rparr>\<rparr>,
      w\<lparr>calls := calls w @ [GetPID m, Monarch_ProposeCommandline m args, Make_Peasant,
         AddPeasant m (Some \<lparr>lastActivatedArgs = None\<rparr>), GetID,
         TraceLoggingWrite ''WindowManager_CreateOurPeasant'', Thread_start]\<rparr>)"
  by (simp add: ProposeCommandline_def areWeTheKing_run createOurPeasant_run
      createPeasantThread_run prims collab)

lemma ProposeCommandline_decline:
  "monarch this = Some m \<Longrightarrow> \<not> sameProcess w m \<Longrightarrow> \<not> monarchProposes w m args \<Longrightarrow>
   ProposeCommandline args this w =
     (Returned (), this\<lparr>shouldCreateWindow := False\<rparr>,
      w\<lparr>calls := calls w @ [GetPID m, Monarch_ProposeCommandline m args]\<rparr>)"
  by (simp add: ProposeCommandline_def areWeTheKing_run prims collab)

lemma createMonarchAndCallbacks_run:
  "createMonarchAndCallbacks this w =
     (Returned (), this\<lparr>monarch := Some (activation w)\<rparr>,
      w\<lparr>calls := calls w @
         [Create_instance (activation w), GetPID (activation w), GetPID (activation w),
          TraceLoggingWrite ''WindowManager_ConnectedToMonarch''] @
         (case peasant this of
            None \<Rightarrow> []
          | Some p \<Rightarrow> [GetLastActivatedArgs,
              HandleActivatePeasant (activation w) (lastActivatedArgs p)]) @
         (if sameProcess w (activation w)
          then [FindTargetWindowRequested (activation w)] else [])\<rparr>)"
  by (simp add: createMonarchAndCallbacks_def createMonarch_def areWeTheKing_def
      sameProcess_def prims collab split: option.split)

lemma electionNight2020_run:
  "electionNight2020 this w =
     (Returned (sameProcess w (activation w)), this\<lparr>monarch := Some (activation w)\<rparr>,
      w\<lparr>calls := calls w @
         [Create_instance (activation w), GetPID (activation w), GetPID (activation w),
          TraceLoggingWrite ''WindowManager_ConnectedToMonarch''] @
         (case peasant this of
            None \<Rightarrow> []
          | Some p \<Rightarrow> [GetLastActivatedArgs,
              HandleActivatePeasant (activation w) (lastActivatedArgs p)]) @
         (if sameProcess w (activation w)
          then [FindTargetWindowRequested (activation w)] else []) @
         [AddPeasant (activation w) (peasant this), GetPID (activation w)]\<rparr>)"
  by (simp add: electionNight2020_def createMonarchAndCallbacks_run areWeTheKing_run
      sameProcess_def prims collab split: option.split)

lemma constructor_run:
  "registration w = (hr, cookie) \<Longrightarrow> \<not> sint hr < 0 \<Longrightarrow>
   WindowManager_constructor this w =
     (Returned (),
      this\<lparr>monarchWaitInterrupt := createdEvent w, registrationHostClass := cookie,
        monarch := Some (activation w)\<rparr>,
      w\<lparr>calls := calls w @
         [Event_create, CoRegisterClassObject,
          Create_instance (activation w), GetPID (activation w), GetPID (activation w),
          TraceLoggingWrite ''WindowManager_ConnectedToMonarch''] @
         (case peasant this of
            None \<Rightarrow> []
          | Some p \<Rightarrow> [GetLastActivatedArgs,
              HandleActivatePeasant (activation w) (lastActivatedArgs p)]) @
         (if sameProcess w (activation w)
          then [FindTargetWindowRequested (activation w)] else [])\<rparr>)"
  by (simp add: WindowManager_constructor_def registerAsMonarch_def check_hresult_def
      createMonarchAndCallbacks_run sameProcess_def prims split: option.split)

lemma constructor_throws:
  "registration w = (hr, cookie) \<Longrightarrow> sint hr < 0 \<Longrightarrow>
   WindowManager_constructor this w =
     (Stopped (Thrown hr),
      this\<lparr>monarchWaitInterrupt := createdEvent w, registrationHostClass := cookie\<rparr>,
      w\<lparr>calls := calls w @ [Event_create, CoRegisterClassObject]\<rparr>)"
  by (simp add: WindowManager_constructor_def registerAsMonarch_def check_hresult_def prims)

text \<open>
  The election and the constructor connect with the same step: the calls of
  \<open>_createMonarchAndCallbacks\<close> open the election and close the construction.
\<close>

lemma election_connects_first:
  "calls_made electionNight2020 this w =
     calls_made createMonarchAndCallbacks this w @
     [AddPeasant (activation w) (peasant this), GetPID (activation w)]"
  by (simp add: electionNight2020_run createMonarchAndCallbacks_run observe)

lemma constructor_connects_last:
  "registration w = (hr, cookie) \<Longrightarrow> \<not> sint hr < 0 \<Longrightarrow>
   calls_made WindowManager_constructor this w =
     [Event_create, CoRegisterClassObject] @ calls_made createMonarchAndCallbacks this w"
  by (simp add: constructor_run createMonarchAndCallbacks_run observe)

lemma loop_body_no_handle:
  "monarch this = Some m \<Longrightarrow> processHandle w (ucast (monarchPID w m)) = 0 \<Longrightarrow>
   loop_body waits1 c this w =
     (Stopped (Exited 0), this,
      w\<lparr>lastError := ERROR_INVALID_HANDLE,
        calls := calls w @
         [GetPID m, OpenProcess (ucast (monarchPID w m)),
          WaitForMultipleObjects [0, waits1], GetLastError,
          Printf ''WaitForMultipleObjects returned: %d'' [WAIT_FAILED],
          Printf ''Wait error: %d'' [ERROR_INVALID_HANDLE]]\<rparr>)"
  by (simp add: loop_body_def win32 waits prims collab)

lemma loop_body_waiting:
  "monarch this = Some m \<Longrightarrow> processHandle w (ucast (monarchPID w m)) \<noteq> 0 \<Longrightarrow>
   waits1 \<noteq> 0 \<Longrightarrow>
   loop_body waits1 None this w =
     (Stopped StillWaiting, this,
      w\<lparr>calls := calls w @
         [GetPID m, OpenProcess (ucast (monarchPID w m)),
          WaitForMultipleObjects [processHandle w (ucast (monarchPID w m)), waits1]]\<rparr>)"
  by (simp add: loop_body_def win32 waits prims collab)

lemma loop_body_election:
  "monarch this = Some m \<Longrightarrow> peasant this = Some p \<Longrightarrow>
   processHandle w (ucast (monarchPID w m)) \<noteq> 0 \<Longrightarrow> waits1 \<noteq> 0 \<Longrightarrow>
   waitResult c = WAIT_OBJECT_0 \<Longrightarrow>
   loop_body waits1 (Some c) this w =
     (Returned (sameProcess w (activationAfter c)),
      this\<lparr>monarch := Some (activationAfter c)\<rparr>,
      w\<lparr>activation := activationAfter c,
        calls := calls w @
         [GetPID m, OpenProcess (ucast (monarchPID w m)),
          WaitForMultipleObjects [processHandle w (ucast (monarchPID w m)), waits1],
          GetID, TraceLoggingWrite ''WindowManager_MonarchDied'',
          Create_instance (activationAfter c), GetPID (activationAfter c),
          GetPID (activationAfter c),
          TraceLoggingWrite ''WindowManager_ConnectedToMonarch'',
          GetLastActivatedArgs,
          HandleActivatePeasant (activationAfter c) (lastActivatedArgs p)] @
         (if sameProcess w (activationAfter c)
          then [FindTargetWindowRequested (activationAfter c)] else []) @
         [AddPeasant (activationAfter c) (Some p), GetPID (activationAfter c),
          CloseHandle (processHandle w (ucast (monarchPID w m)))]\<rparr>)"
  by (simp add: loop_body_def win32 waits prims collab electionNight2020_run sameProcess_def)



lemma loop_body_invalid:
  "monarch this = Some m \<Longrightarrow>
   processHandle w (ucast (monarchPID w m)) \<noteq> 0 \<Longrightarrow> waits1 \<noteq> 0 \<Longrightarrow>
   waitResult c \<noteq> WAIT_OBJECT_0 \<Longrightarrow> waitResult c \<noteq> WAIT_OBJECT_0 + 1 \<Longrightarrow>
   waitResult c \<noteq> WAIT_TIMEOUT \<Longrightarrow>
   loop_body waits1 (Some c) this w =
     (Stopped (Exited 0), this,
      w\<lparr>activation := activationAfter c,
        calls := calls w @
         [GetPID m, OpenProcess (ucast (monarchPID w m)),
          WaitForMultipleObjects [processHandle w (ucast (monarchPID w m)), waits1],
          GetLastError,
          Printf ''WaitForMultipleObjects returned: %d'' [waitResult c],
          Printf ''Wait error: %d'' [lastError w]]\<rparr>)"
  by (simp add: loop_body_def win32 waits prims collab)

lemma loop_body_null_interrupt:
  "monarch this = Some m \<Longrightarrow> processHandle w (ucast (monarchPID w m)) \<noteq> 0 \<Longrightarrow>
   loop_body 0 c this w =
     (Stopped (Exited 0), this,
      w\<lparr>lastError := ERROR_INVALID_HANDLE,
        calls := calls w @
         [GetPID m, OpenProcess (ucast (monarchPID w m)),
          WaitForMultipleObjects [processHandle w (ucast (monarchPID w m)), 0], GetLastError,
          Printf ''WaitForMultipleObjects returned: %d'' [WAIT_FAILED],
          Printf ''Wait error: %d'' [ERROR_INVALID_HANDLE]]\<rparr>)"
  by (simp add: loop_body_def win32 waits prims collab)

text \<open>
  What the wait returns: \<open>WAIT_FAILED\<close> on a null handle, otherwise the result of its
  completion, and never \<open>WAIT_TIMEOUT\<close> when the interval is \<open>INFINITE\<close>.
\<close>

lemma wait_returns:
  "outcome_of (wait_for_multiple_objects waits t c) this w = Returned r \<longleftrightarrow>
     (if 0 \<in> set waits then r = WAIT_FAILED
      else \<exists>d. c = Some d \<and> waitResult d = r \<and> \<not> (r = WAIT_TIMEOUT \<and> t = INFINITE))"
  by (cases c) (auto simp add: wait_for_multiple_objects_def outcome_of_def prims)



subsection \<open>In the concrete world\<close>

lemmas examples = args_A_def args_B_def members_def example_world_def constructed_def

lemma sameProcess_example:
  "sameProcess (example_world a) m = (m = 22)"
  by (simp add: sameProcess_def example_world_def)

lemma example_world_simps:
  "currentProcessId (example_world a) = 200"
  "monarchPID (example_world a) 11 = 100"
  "monarchPID (example_world a) 22 = 200"
  "monarchPID (example_world a) 33 = 300"
  "processHandle (example_world a) 100 = 9"
  "processHandle (example_world a) 300 = 11"
  "activation (example_world a) = a"
  "lastError (example_world a) = 0"
  "calls (example_world a) = []"
  by (simp_all add: example_world_def)

lemma completed_simps:
  "waitResult (completed r a) = r" "activationAfter (completed r a) = a"
  by (simp_all add: completed_def)

lemma constructed_is: "object_after WindowManager_constructor members (example_world a) = constructed a"
  using constructor_run [of "example_world a" 0 77 members]
  by (simp add: observe examples)


lemma watching_simps:
  "monarch watching = Some 11"
  "peasant watching = Some \<lparr>lastActivatedArgs = Some args_A\<rparr>"
  "monarchWaitInterrupt watching = 5"
  "electionThread watching = Running"
  by (simp_all add: watching_def examples)





section \<open>The claims\<close>

text \<open>
  C1. For every argument value: when \<open>ProposeCommandline\<close> runs in a process that is
  king (its id equals the pid of the Monarch it holds), the decision is true and no
  \<open>Monarch.ProposeCommandline\<close> call is made; when the process is not king, the Monarch
  is asked with these arguments and the decision is its answer; \<open>ShouldCreateWindow\<close>
  afterwards returns the decision.
\<close>

theorem ProposeCommandline_decision:
  assumes "monarch this = Some m"
  shows "shouldCreateWindow (object_after (ProposeCommandline args) this w) =
           (sameProcess w m \<or> monarchProposes w m args)
       \<and> (sameProcess w m \<longrightarrow>
            (\<forall>m' a. Monarch_ProposeCommandline m' a
               \<notin> set (calls_made (ProposeCommandline args) this w)))
       \<and> (\<not> sameProcess w m \<longrightarrow>
            take 2 (calls_made (ProposeCommandline args) this w) =
              [GetPID m, Monarch_ProposeCommandline m args])
       \<and> outcome_of ShouldCreateWindow
            (object_after (ProposeCommandline args) this w)
            (world_after (ProposeCommandline args) this w) =
          Returned (sameProcess w m \<or> monarchProposes w m args)"
proof (cases "sameProcess w m")
  case True
  with assms show ?thesis
    by (simp add: ProposeCommandline_king observe ShouldCreateWindow_def field_def)
next
  case king: False
  show ?thesis
  proof (cases "monarchProposes w m args")
    case False
    with assms king show ?thesis
      by (simp add: ProposeCommandline_decline observe ShouldCreateWindow_def field_def)
  next
    case True
    show ?thesis
    proof (cases "joinable (electionThread this)")
      case True
      with assms king \<open>monarchProposes w m args\<close> show ?thesis
        by (simp add: ProposeCommandline_subject_second_thread observe
            ShouldCreateWindow_def field_def)
    next
      case False
      with assms king \<open>monarchProposes w m args\<close> show ?thesis
        by (simp add: ProposeCommandline_subject_create observe
            ShouldCreateWindow_def field_def)
    qed
  qed
qed

theorem ProposeCommandline_decision_witness:
  "monarch (constructed 22) = Some 22
   \<and> sameProcess (example_world 22) 22
   \<and> shouldCreateWindow (object_after (ProposeCommandline args_A) (constructed 22) (example_world 22))
   \<and> outcome_of ShouldCreateWindow
        (object_after (ProposeCommandline args_A) (constructed 22) (example_world 22))
        (world_after (ProposeCommandline args_A) (constructed 22) (example_world 22)) = Returned True
   \<and> \<not> sameProcess (example_world 11) 11
   \<and> \<not> monarchProposes (example_world 11) 11 args_B
   \<and> \<not> shouldCreateWindow (object_after (ProposeCommandline args_B) (constructed 11) (example_world 11))
   \<and> take 2 (calls_made (ProposeCommandline args_B) (constructed 11) (example_world 11)) =
        [GetPID 11, Monarch_ProposeCommandline 11 args_B]"
  using ProposeCommandline_decision [of "constructed 22" 22 args_A "example_world 22"]
    ProposeCommandline_decision [of "constructed 11" 11 args_B "example_world 11"]
  by (simp add: sameProcess_example) (simp add: examples)

text \<open>
  C2. \<open>_areWeTheKing\<close> returns true if and only if the id of this process equals the
  pid that the Monarch held in \<open>_monarch\<close> reports, and it asks that Monarch with
  \<open>GetPID\<close> each time it is called. Nothing is kept across a change of Monarch: an
  election answers for the Monarch it has just connected to, whatever Monarch the object
  held before, and so does a check made after the election.
\<close>

theorem areWeTheKing_recomputed:
  assumes "monarch this = Some m"
  shows "areWeTheKing this w =
           (Returned (sameProcess w m), this, w\<lparr>calls := calls w @ [GetPID m]\<rparr>)
       \<and> outcome_of electionNight2020 this w = Returned (sameProcess w (activation w))
       \<and> monarch (object_after electionNight2020 this w) = Some (activation w)
       \<and> last (calls_made electionNight2020 this w) = GetPID (activation w)
       \<and> areWeTheKing (object_after electionNight2020 this w)
            (world_after electionNight2020 this w) =
           (Returned (sameProcess w (activation w)),
            object_after electionNight2020 this w,
            (world_after electionNight2020 this w)
              \<lparr>calls := calls (world_after electionNight2020 this w) @ [GetPID (activation w)]\<rparr>)"
proof -
  have after: "monarch (this\<lparr>monarch := Some (activation w)\<rparr>) = Some (activation w)"
    by simp
  show ?thesis
    using assms
    by (simp add: areWeTheKing_run electionNight2020_run observe
        areWeTheKing_run [OF after] sameProcess_def)
qed

theorem areWeTheKing_recomputed_witness:
  "monarch (constructed 11) = Some 11
   \<and> outcome_of areWeTheKing (constructed 11) (example_world 22) = Returned False
   \<and> outcome_of electionNight2020 (constructed 11) (example_world 22) = Returned True
   \<and> outcome_of areWeTheKing
        (object_after electionNight2020 (constructed 11) (example_world 22))
        (world_after electionNight2020 (constructed 11) (example_world 22)) = Returned True"
proof -
  have m: "monarch (constructed 11) = Some 11"
    by (simp add: examples)
  have a: "activation (example_world 22) = 22"
    by (simp add: example_world_def)
  from areWeTheKing_recomputed [OF m, of "example_world 22"] m show ?thesis
    by (simp add: outcome_of_def sameProcess_example a)
qed

text \<open>
  C3. When the wait of the watcher returns because the Monarch's process has ended, the
  watcher does, in this order: connect again with \<open>_createMonarchAndCallbacks\<close>, the
  step the constructor ends with (it subscribes to \<open>FindTargetWindowRequested\<close> when the
  new Monarch lives in this process); register the Peasant with the new Monarch through
  \<open>AddPeasant\<close>; evaluate king-ship again. If the process is king the loop ends and
  the thread returns. If not, the loop goes round: the next pass asks the new Monarch for
  its pid, opens that process and waits on its handle and the interrupt.
\<close>

theorem watcher_election:
  assumes "monarch this = Some m" and "peasant this = Some p"
    and "processHandle w (ucast (monarchPID w m)) \<noteq> 0"
    and "monarchWaitInterrupt this \<noteq> 0"
    and "waitResult c = WAIT_OBJECT_0"
  shows "let m' = activationAfter c;
             this' = this\<lparr>monarch := Some m'\<rparr>;
             w' = w\<lparr>activation := m',
               calls := calls w @
                 [GetPID m, OpenProcess (ucast (monarchPID w m)),
                  WaitForMultipleObjects
                    [processHandle w (ucast (monarchPID w m)), monarchWaitInterrupt this],
                  GetID, TraceLoggingWrite ''WindowManager_MonarchDied'',
                  Create_instance m', GetPID m', GetPID m',
                  TraceLoggingWrite ''WindowManager_ConnectedToMonarch'',
                  GetLastActivatedArgs, HandleActivatePeasant m' (lastActivatedArgs p)] @
                 (if sameProcess w m' then [FindTargetWindowRequested m'] else []) @
                 [AddPeasant m' (Some p), GetPID m',
                  CloseHandle (processHandle w (ucast (monarchPID w m)))]\<rparr>
         in waitOnMonarchThread (c # cs) this w =
              (if sameProcess w m' then (Returned (), this', w')
               else loop (monarchWaitInterrupt this) cs this' w')
          \<and> (processHandle w (ucast (monarchPID w m')) \<noteq> 0 \<longrightarrow>
               loop (monarchWaitInterrupt this) [] this' w' =
                 (Stopped StillWaiting, this',
                  w'\<lparr>calls := calls w' @
                     [GetPID m', OpenProcess (ucast (monarchPID w m')),
                      WaitForMultipleObjects
                        [processHandle w (ucast (monarchPID w m')),
                         monarchWaitInterrupt this]]\<rparr>))"
proof -
  let ?m' = "activationAfter c"
  let ?this' = "this\<lparr>monarch := Some ?m'\<rparr>"
  have pass: "waitOnMonarchThread (c # cs) this w =
      (case loop_body (monarchWaitInterrupt this) (Some c) this w of
         (Returned exitRequested, this', w') \<Rightarrow>
           if exitRequested then (Returned (), this', w')
           else loop (monarchWaitInterrupt this) cs this' w'
       | (Stopped r, this', w') \<Rightarrow> (Stopped r, this', w'))"
    by (simp add: waitOnMonarchThread_def seq_def field_def)
  have next_monarch: "monarch ?this' = Some ?m'"
    by simp
  show ?thesis
    unfolding Let_def pass loop_body_election [OF assms]
    by (simp add: loop_body_waiting [OF next_monarch] assms(4))
qed

theorem watcher_election_witness:
  "waitOnMonarchThread [completed 0 22] watching (example_world 11) =
     (Returned (), watching\<lparr>monarch := Some 22\<rparr>,
      (example_world 11)\<lparr>activation := 22,
        calls :=
         [GetPID 11, OpenProcess 100, WaitForMultipleObjects [9, 5],
          GetID, TraceLoggingWrite ''WindowManager_MonarchDied'',
          Create_instance 22, GetPID 22, GetPID 22,
          TraceLoggingWrite ''WindowManager_ConnectedToMonarch'',
          GetLastActivatedArgs, HandleActivatePeasant 22 (Some args_A),
          FindTargetWindowRequested 22,
          AddPeasant 22 (Some \<lparr>lastActivatedArgs = Some args_A\<rparr>), GetPID 22,
          CloseHandle 9]\<rparr>)
   \<and> waitOnMonarchThread [completed 0 33] watching (example_world 11) =
     (Stopped StillWaiting, watching\<lparr>monarch := Some 33\<rparr>,
      (example_world 11)\<lparr>activation := 33,
        calls :=
         [GetPID 11, OpenProcess 100, WaitForMultipleObjects [9, 5],
          GetID, TraceLoggingWrite ''WindowManager_MonarchDied'',
          Create_instance 33, GetPID 33, GetPID 33,
          TraceLoggingWrite ''WindowManager_ConnectedToMonarch'',
          GetLastActivatedArgs, HandleActivatePeasant 33 (Some args_A),
          AddPeasant 33 (Some \<lparr>lastActivatedArgs = Some args_A\<rparr>), GetPID 33,
          CloseHandle 9,
          GetPID 33, OpenProcess 300, WaitForMultipleObjects [11, 5]]\<rparr>)"
proof -
  have h: "processHandle (example_world 11) (ucast (monarchPID (example_world 11) 11)) \<noteq> 0"
    and i: "monarchWaitInterrupt watching \<noteq> 0"
    and r: "\<And>a. waitResult (completed 0 a) = WAIT_OBJECT_0"
    by (simp_all add: example_world_simps watching_simps completed_simps WAIT_OBJECT_0_def)
  note run = watcher_election [OF watching_simps(1) watching_simps(2) h i r, of _ "[]"]
  show ?thesis
    using run [of 22] run [of 33]
    by (simp add: Let_def sameProcess_example completed_simps example_world_simps
        watching_simps)
qed







text \<open>
  C6. For every value the watcher's wait returns other than the two normal completions
  (the Monarch's handle signaled, the interrupt signaled), the failure is fatal: the
  result and the last error are printed and the process exits with \<open>ExitProcess(0)\<close>,
  without another pass of the loop, whatever later waits would return, and without an
  election. The wait has no time-out, so \<open>WAIT_TIMEOUT\<close> is not among the values it
  returns.
\<close>

theorem watcher_unexpected_wait:
  assumes "monarch this = Some m"
    and "outcome_of (wait_for_multiple_objects
           [processHandle w (ucast (monarchPID w m)), waits1] INFINITE (Some c)) this w =
         Returned r"
    and "r \<noteq> WAIT_OBJECT_0 + 0" and "r \<noteq> WAIT_OBJECT_0 + 1"
  shows "outcome_of (loop waits1 (c # cs)) this w = Stopped (Exited 0)
       \<and> object_after (loop waits1 (c # cs)) this w = this
       \<and> calls_made (loop waits1 (c # cs)) this w =
           [GetPID m, OpenProcess (ucast (monarchPID w m)),
            WaitForMultipleObjects [processHandle w (ucast (monarchPID w m)), waits1],
            GetLastError,
            Printf ''WaitForMultipleObjects returned: %d'' [r],
            Printf ''Wait error: %d''
              [if processHandle w (ucast (monarchPID w m)) = 0 \<or> waits1 = 0
               then ERROR_INVALID_HANDLE else lastError w]]
       \<and> r \<noteq> WAIT_TIMEOUT"
proof (cases "processHandle w (ucast (monarchPID w m)) = 0")
  case True
  with assms(2) have "r = WAIT_FAILED"
    by (simp add: wait_returns)
  with True show ?thesis
    by (simp add: loop_body_no_handle [OF assms(1) True] observe waits)
next
  case handle: False
  show ?thesis
  proof (cases "waits1 = 0")
    case True
    with assms(2) have "r = WAIT_FAILED"
      by (simp add: wait_returns)
    with True handle show ?thesis
      by (simp add: loop_body_null_interrupt [OF assms(1) handle] observe waits)
  next
    case False
    with handle assms(2) have r: "waitResult c = r" "r \<noteq> WAIT_TIMEOUT"
      by (simp_all add: wait_returns)
    with assms(3,4) have other: "waitResult c \<noteq> WAIT_OBJECT_0"
      "waitResult c \<noteq> WAIT_OBJECT_0 + 1" "waitResult c \<noteq> WAIT_TIMEOUT"
      by (simp_all add: WAIT_OBJECT_0_def)
    from handle False r show ?thesis
      by (simp add: loop_body_invalid [OF assms(1) handle False other] observe)
  qed
qed

theorem watcher_unexpected_wait_witness:
  "outcome_of (wait_for_multiple_objects [9, 5] INFINITE (Some (completed 128 11)))
     watching (example_world 11) = Returned 128
   \<and> loop 5 [completed 128 11, completed 0 22] watching (example_world 11) =
     (Stopped (Exited 0), watching,
      (example_world 11)\<lparr>activation := 11,
        calls := [GetPID 11, OpenProcess 100, WaitForMultipleObjects [9, 5], GetLastError,
          Printf ''WaitForMultipleObjects returned: %d'' [128],
          Printf ''Wait error: %d'' [0]]\<rparr>)
   \<and> outcome_of (loop 5 [completed 128 11, completed 0 22]) watching (example_world 11) =
       Stopped (Exited 0)
   \<and> calls_made (loop 5 [completed 128 11, completed 0 22]) watching (example_world 11) =
       [GetPID 11, OpenProcess 100, WaitForMultipleObjects [9, 5], GetLastError,
        Printf ''WaitForMultipleObjects returned: %d'' [128],
        Printf ''Wait error: %d'' [0]]"
proof -
  have returned: "outcome_of (wait_for_multiple_objects
      [processHandle (example_world 11) (ucast (monarchPID (example_world 11) 11)), 5]
      INFINITE (Some (completed 128 11))) watching (example_world 11) = Returned 128"
    by (simp add: wait_returns example_world_simps completed_simps waits)
  have numbers: "(128::DWORD) \<noteq> WAIT_OBJECT_0 + 0" "(128::DWORD) \<noteq> WAIT_OBJECT_0 + 1"
    by (simp_all add: waits)
  have h: "processHandle (example_world 11) (ucast (monarchPID (example_world 11) 11)) \<noteq> 0"
    and i: "(5::nat) \<noteq> 0"
    and r: "waitResult (completed 128 11) \<noteq> WAIT_OBJECT_0"
      "waitResult (completed 128 11) \<noteq> WAIT_OBJECT_0 + 1"
      "waitResult (completed 128 11) \<noteq> WAIT_TIMEOUT"
    by (simp_all add: example_world_simps completed_simps waits)
  have run: "loop 5 [completed 128 11, completed 0 22] watching (example_world 11) =
     (Stopped (Exited 0), watching,
      (example_world 11)\<lparr>activation := 11,
        calls := [GetPID 11, OpenProcess 100, WaitForMultipleObjects [9, 5], GetLastError,
          Printf ''WaitForMultipleObjects returned: %d'' [128],
          Printf ''Wait error: %d'' [0]]\<rparr>)"
    by (simp add: loop_body_invalid [OF watching_simps(1) h i r] completed_simps
        example_world_simps)
  from watcher_unexpected_wait [OF watching_simps(1) returned numbers, of "[completed 0 22]"]
    returned run
  show ?thesis
    by (simp add: example_world_simps)
qed

text \<open>
  C7. On destruction the registration is revoked first, then the interrupt
  event is set, then the watcher thread is joined, and the destructor returns after
  that. The join is guarded by \<open>joinable()\<close>: it is skipped on a thread object that has
  no thread (none was started, or it was joined); a thread that was started is joined
  also when its function has already returned.
\<close>

theorem destructor_order:
  "WindowManager_destructor this w =
     (Returned (),
      (if joinable (electionThread this)
       then this\<lparr>registrationHostClass := 0, electionThread := NoThread\<rparr>
       else this\<lparr>registrationHostClass := 0\<rparr>),
      w\<lparr>calls := calls w @
         [CoRevokeClassObject (registrationHostClass this),
          SetEvent (monarchWaitInterrupt this)] @
         (if joinable (electionThread this) then [Thread_join] else [])\<rparr>)"
  by (simp add: WindowManager_destructor_def thread_join_def prims)

theorem destructor_order_witness:
  "calls_made WindowManager_destructor ((constructed 11)\<lparr>electionThread := Running\<rparr>)
     (example_world 11) = [CoRevokeClassObject 77, SetEvent 5, Thread_join]
   \<and> calls_made WindowManager_destructor (constructed 11) (example_world 11) =
       [CoRevokeClassObject 77, SetEvent 5]
   \<and> object_after WindowManager_destructor (constructed 11) (example_world 11) =
       (constructed 11)\<lparr>registrationHostClass := 0\<rparr>"
  using destructor_order [of "(constructed 11)\<lparr>electionThread := Running\<rparr>" "example_world 11"]
    destructor_order [of "constructed 11" "example_world 11"]
  by (simp add: observe joinable_def examples)

text \<open>
  The spec's sentence for C7 goes further: destroying an object whose watcher thread has
  already finished would leave the join step with nothing to do. A thread whose function
  has returned is still joinable, so the destructor joins it, and the thread object
  changes. Here the watcher has won an election and returned before the object is
  destroyed.
\<close>

theorem destructor_joins_finished_thread:
  "object_after (electionThread_function [completed 0 22]) watching (example_world 11) =
     watching\<lparr>monarch := Some 22, electionThread := Finished\<rparr>
   \<and> calls_made WindowManager_destructor
       (watching\<lparr>monarch := Some 22, electionThread := Finished\<rparr>) (example_world 22) =
     [CoRevokeClassObject 77, SetEvent 5, Thread_join]
   \<and> electionThread (object_after WindowManager_destructor
        (watching\<lparr>monarch := Some 22, electionThread := Finished\<rparr>) (example_world 22)) =
     NoThread"
proof -
  have h: "processHandle (example_world 11) (ucast (monarchPID (example_world 11) 11)) \<noteq> 0"
    and i: "(5::nat) \<noteq> 0"
    and r: "waitResult (completed 0 22) = WAIT_OBJECT_0"
    by (simp_all add: example_world_simps completed_simps WAIT_OBJECT_0_def)
  have finished: "object_after (electionThread_function [completed 0 22]) watching
      (example_world 11) = watching\<lparr>monarch := Some 22, electionThread := Finished\<rparr>"
    by (simp add: electionThread_function_def waitOnMonarchThread_def seq_def field_def
        assign_def object_after_def watching_simps
        loop_body_election [OF watching_simps(1) watching_simps(2) h i r]
        completed_simps sameProcess_example)
  have joined: "WindowManager_destructor
      (watching\<lparr>monarch := Some 22, electionThread := Finished\<rparr>) (example_world 22) =
      (Returned (),
       watching\<lparr>monarch := Some 22, electionThread := NoThread, registrationHostClass := 0\<rparr>,
       (example_world 22)\<lparr>calls := [CoRevokeClassObject 77, SetEvent 5, Thread_join]\<rparr>)"
    by (simp add: WindowManager_destructor_def thread_join_def prims joinable_def
        watching_def examples)
  from finished joined show ?thesis
    by (simp add: observe example_world_simps)
qed

text \<open>
  C8. On construction the steps are: create the interrupt event, register
  this process as a server of the Monarch class (a failed registration throws, and
  construction ends there), connect to obtain a Monarch, then compute king-ship by
  comparing process identities (and, when king, subscribe to
  \<open>FindTargetWindowRequested\<close>). No registration is revoked during construction.
\<close>

theorem constructor_steps:
  assumes "registration w = (hr, cookie)"
  shows "WindowManager_constructor this w =
     (if sint hr < 0 then
        (Stopped (Thrown hr),
         this\<lparr>monarchWaitInterrupt := createdEvent w, registrationHostClass := cookie\<rparr>,
         w\<lparr>calls := calls w @ [Event_create, CoRegisterClassObject]\<rparr>)
      else
        (Returned (),
         this\<lparr>monarchWaitInterrupt := createdEvent w, registrationHostClass := cookie,
           monarch := Some (activation w)\<rparr>,
         w\<lparr>calls := calls w @
            [Event_create, CoRegisterClassObject,
             Create_instance (activation w), GetPID (activation w), GetPID (activation w),
             TraceLoggingWrite ''WindowManager_ConnectedToMonarch''] @
            (case peasant this of
               None \<Rightarrow> []
             | Some p \<Rightarrow> [GetLastActivatedArgs,
                 HandleActivatePeasant (activation w) (lastActivatedArgs p)]) @
            (if sameProcess w (activation w)
             then [FindTargetWindowRequested (activation w)] else [])\<rparr>))
     \<and> (\<forall>c. CoRevokeClassObject c \<notin> set (calls_made WindowManager_constructor this w))"
proof (cases "sint hr < 0")
  case True
  with assms show ?thesis
    by (simp add: constructor_throws observe)
next
  case False
  with assms show ?thesis
    by (simp add: constructor_run observe split: option.split)
qed

theorem constructor_steps_witness:
  "registration (example_world 22) = (0, 77)
   \<and> WindowManager_constructor members (example_world 22) =
       (Returned (), constructed 22,
        (example_world 22)\<lparr>calls :=
           [Event_create, CoRegisterClassObject, Create_instance 22, GetPID 22, GetPID 22,
            TraceLoggingWrite ''WindowManager_ConnectedToMonarch'',
            FindTargetWindowRequested 22]\<rparr>)"
proof -
  have r: "registration (example_world 22) = (0, 77)"
    by (simp add: example_world_def)
  from constructor_steps [OF r, of members] r show ?thesis
    by (simp add: sameProcess_example) (simp add: examples)
qed

text \<open>
  The spec's sentence for C8 starts construction with revoking a stale registration. The
  constructor makes no such call; its first call creates the event.
\<close>

theorem constructor_revokes_nothing:
  "calls_made WindowManager_constructor members (example_world 22) =
     [Event_create, CoRegisterClassObject, Create_instance 22, GetPID 22, GetPID 22,
      TraceLoggingWrite ''WindowManager_ConnectedToMonarch'', FindTargetWindowRequested 22]
   \<and> (\<forall>c. hd (calls_made WindowManager_constructor members (example_world 22))
          \<noteq> CoRevokeClassObject c)"
proof -
  have r: "registration (example_world 22) = (0, 77)"
    by (simp add: example_world_def)
  show ?thesis
    by (simp add: constructor_run [OF r] observe sameProcess_example) (simp add: examples)
qed

text \<open>
  C9. For every argument value: when the decision of \<open>ProposeCommandline\<close> is not to
  create a window, nothing else happens. No Peasant is made, no thread is started,
  \<open>ExecuteCommandline\<close> is not called, and no member of the object changes but
  \<open>_shouldCreateWindow\<close>; the only calls are the two that made the decision.
\<close>

theorem ProposeCommandline_no_create:
  assumes "monarch this = Some m"
    and "\<not> shouldCreateWindow (object_after (ProposeCommandline args) this w)"
  shows "ProposeCommandline args this w =
     (Returned (), this\<lparr>shouldCreateWindow := False\<rparr>,
      w\<lparr>calls := calls w @ [GetPID m, Monarch_ProposeCommandline m args]\<rparr>)
     \<and> Make_Peasant \<notin> set (calls_made (ProposeCommandline args) this w)
     \<and> Thread_start \<notin> set (calls_made (ProposeCommandline args) this w)
     \<and> (\<forall>a. ExecuteCommandline a \<notin> set (calls_made (ProposeCommandline args) this w))"
proof -
  have decline: "\<not> sameProcess w m \<and> \<not> monarchProposes w m args"
  proof (rule ccontr)
    assume "\<not> (\<not> sameProcess w m \<and> \<not> monarchProposes w m args)"
    then consider "sameProcess w m"
      | "\<not> sameProcess w m" "monarchProposes w m args" "joinable (electionThread this)"
      | "\<not> sameProcess w m" "monarchProposes w m args" "\<not> joinable (electionThread this)"
      by blast
    then have "shouldCreateWindow (object_after (ProposeCommandline args) this w)"
    proof cases
      case 1
      with assms(1) show ?thesis
        by (simp add: ProposeCommandline_king object_after_def)
    next
      case 2
      with assms(1) show ?thesis
        by (simp add: ProposeCommandline_subject_second_thread object_after_def)
    next
      case 3
      with assms(1) show ?thesis
        by (simp add: ProposeCommandline_subject_create object_after_def)
    qed
    with assms(2) show False by simp
  qed
  with assms(1) show ?thesis
    by (simp add: ProposeCommandline_decline observe)
qed

theorem ProposeCommandline_no_create_witness:
  "monarch (constructed 11) = Some 11
   \<and> \<not> shouldCreateWindow (object_after (ProposeCommandline args_B) (constructed 11) (example_world 11))
   \<and> ProposeCommandline args_B (constructed 11) (example_world 11) =
     (Returned (), (constructed 11)\<lparr>shouldCreateWindow := False\<rparr>,
      (example_world 11)\<lparr>calls := [GetPID 11, Monarch_ProposeCommandline 11 args_B]\<rparr>)"
proof -
  have m: "monarch (constructed 11) = Some 11"
    by (simp add: examples)
  have k: "\<not> sameProcess (example_world 11) 11"
    by (simp add: sameProcess_example)
  have p: "\<not> monarchProposes (example_world 11) 11 args_B"
    by (simp add: examples)
  have decided: "\<not> shouldCreateWindow
      (object_after (ProposeCommandline args_B) (constructed 11) (example_world 11))"
    unfolding object_after_def ProposeCommandline_decline [OF m k p] by simp
  from ProposeCommandline_no_create [OF m decided] m decided show ?thesis
    by (simp add: example_world_def)
qed

text \<open>
  C10. If \<open>OpenProcess\<close> fails for the pid of the Monarch (it returns the null handle,
  as when that process is already gone), the watcher passes the null handle to the wait
  without a check; the wait fails, the result is none the source names, and the watcher
  ends the process with \<open>ExitProcess(0)\<close>. No election is held: the run makes no
  \<open>create_instance\<close> call. This is so whatever the waits would have returned.
\<close>

theorem watcher_null_handle:
  assumes "monarch this = Some m"
    and "processHandle w (ucast (monarchPID w m)) = 0"
  shows "waitOnMonarchThread cs this w =
     (Stopped (Exited 0), this,
      w\<lparr>lastError := ERROR_INVALID_HANDLE,
        calls := calls w @
         [GetPID m, OpenProcess (ucast (monarchPID w m)),
          WaitForMultipleObjects [0, monarchWaitInterrupt this], GetLastError,
          Printf ''WaitForMultipleObjects returned: %d'' [WAIT_FAILED],
          Printf ''Wait error: %d'' [ERROR_INVALID_HANDLE]]\<rparr>)
     \<and> (\<forall>a. Create_instance a \<notin> set (calls_made (waitOnMonarchThread cs) this w))"
proof (cases cs)
  case Nil
  then show ?thesis
    by (simp add: waitOnMonarchThread_def seq_def field_def observe
        loop_body_no_handle [OF assms])
next
  case (Cons c rest)
  then show ?thesis
    by (simp add: waitOnMonarchThread_def seq_def field_def observe
        loop_body_no_handle [OF assms])
qed

theorem watcher_null_handle_witness:
  "processHandle ((example_world 11)\<lparr>processHandle := \<lambda>pid. 0\<rparr>)
     (ucast (monarchPID ((example_world 11)\<lparr>processHandle := \<lambda>pid. 0\<rparr>) 11)) = 0
   \<and> waitOnMonarchThread [completed 0 22] watching
       ((example_world 11)\<lparr>processHandle := \<lambda>pid. 0\<rparr>) =
     (Stopped (Exited 0), watching,
      (example_world 11)\<lparr>processHandle := \<lambda>pid. 0, lastError := 6,
        calls := [GetPID 11, OpenProcess 100, WaitForMultipleObjects [0, 5], GetLastError,
          Printf ''WaitForMultipleObjects returned: %d'' [0xFFFFFFFF],
          Printf ''Wait error: %d'' [6]]\<rparr>)"
proof -
  have gone: "processHandle ((example_world 11)\<lparr>processHandle := \<lambda>pid. 0\<rparr>)
      (ucast (monarchPID ((example_world 11)\<lparr>processHandle := \<lambda>pid. 0\<rparr>) 11)) = 0"
    by simp
  from watcher_null_handle [OF watching_simps(1) gone, of "[completed 0 22]"] gone
  show ?thesis
    by (simp add: example_world_simps watching_simps waits)
qed

end
